theory Spec2Isabelle
  imports Main "HOL-Library.Sublist" "HOL-Library.AList"
begin

section \<open>The installation engine of krew (package \<open>installation\<close>)\<close>

text \<open>
  A shallow embedding of the install and uninstall lifecycle of the plugin manager:
  \<open>Install\<close>, \<open>install\<close>, \<open>applyDefaults\<close>, \<open>downloadAndExtract\<close>, \<open>Uninstall\<close>,
  \<open>createOrUpdateLink\<close>, \<open>removeLink\<close>, \<open>isWindows\<close> and \<open>pluginNameToBin\<close>.
  Go's \<open>error\<close> results are values of \<open>error option\<close> (\<open>None\<close> is \<open>nil\<close>), the file
  system is an explicit state that every operation takes and returns, and what the
  operating system, the network and the process environment decide is read from a
  record of parameters.
\<close>

subsection \<open>Manifest data (package \<open>index\<close>)\<close>

text \<open>
  Modelled from the spec: the declarations of \<open>index.Plugin\<close>, \<open>index.Platform\<close> and
  \<open>index.FileOperation\<close> are not among the sources, so the records follow section 3 of
  the specification and the field names the installer reads. A Go slice is either
  \<open>nil\<close> or a (possibly empty) sequence, and the installer tells the two apart, so
  \<open>Files\<close> is a list option: \<open>None\<close> is the \<open>nil\<close> slice.
\<close>

type_synonym path = string

record FileOperation =
  From :: string
  To :: string

record Platform =
  URI :: string
  Sha256 :: string
  Selector :: string
  Files :: "FileOperation list option"
  Bin :: string

record PluginSpec =
  Version :: string
  Homepage :: string
  ShortDescription :: string
  Platforms :: "Platform list"

record Plugin =
  Name :: string
  Spec :: PluginSpec

text \<open>The zero value \<open>index.Platform{}\<close>.\<close>

definition zeroPlatform :: Platform where
  "zeroPlatform = \<lparr>URI = [], Sha256 = [], Selector = [], Files = None, Bin = []\<rparr>"

text \<open>The elements a \<open>range\<close> over a slice visits: none for \<open>nil\<close>.\<close>

definition elems :: "'a list option \<Rightarrow> 'a list" where
  "elems xs = (case xs of None \<Rightarrow> [] | Some ys \<Rightarrow> ys)"

subsection \<open>Errors\<close>

datatype errno = ENOENT | EEXIST | ENOTDIR | ENOTEMPTY | ELOOP | EACCES

text \<open>
  \<open>PathError op path errno\<close> stands for \<open>*os.PathError\<close> and \<open>*os.LinkError\<close>.
  The three sentinels are the package's \<open>errors.New\<close> variables, which callers compare
  by identity. \<open>Errorf\<close> and \<open>Wrapped\<close> keep the format string and its arguments apart
  instead of formatting them.
\<close>

datatype error =
    PathError string path errno
  | ErrIsAlreadyInstalled
  | ErrIsNotInstalled
  | ErrIsAlreadyUpgraded
  | New string
  | Errorf string "string list"
  | Wrapped error string "string list"
  | ChecksumMismatch string string
  | DecodeError path

text \<open>
  \<open>errors.Wrap\<close> and \<open>errors.Wrapf\<close> of \<open>github.com/pkg/errors\<close>: they annotate an error
  with a message, and return \<open>nil\<close> when the error they are given is \<open>nil\<close>. The last
  statements of \<open>Install\<close> and \<open>install\<close> rely on exactly that to report success.
\<close>

fun Wrapf :: "error option \<Rightarrow> string \<Rightarrow> string list \<Rightarrow> error option" where
  "Wrapf None format args = None"
| "Wrapf (Some err) format args = Some (Wrapped err format args)"

definition Wrap :: "error option \<Rightarrow> string \<Rightarrow> error option" where
  "Wrap err message = Wrapf err message []"

text \<open>
  \<open>os.IsNotExist\<close>: true of an operating-system error whose number is \<open>ENOENT\<close>; it does
  not look through the wrappers of \<open>pkg/errors\<close>, and it is false of \<open>nil\<close>.
\<close>

fun IsNotExist :: "error option \<Rightarrow> bool" where
  "IsNotExist (Some (PathError opn p e)) = (e = ENOENT)"
| "IsNotExist other = False"

subsection \<open>Strings and paths (packages \<open>strings\<close> and \<open>path/filepath\<close>)\<close>

text \<open>
  \<open>strings.Replace s old new n\<close> replaces the first \<open>n\<close> non-overlapping instances of
  \<open>old\<close>, all of them when \<open>n < 0\<close>. The scan below is Go's for a non-empty \<open>old\<close>; the
  installer's only call passes \<open>"-"\<close>. (For an empty \<open>old\<close> Go inserts \<open>new\<close> between
  runes; that case is not modelled and the string is returned as it is.)
\<close>

function Replace :: "string \<Rightarrow> string \<Rightarrow> string \<Rightarrow> int \<Rightarrow> string" where
  "Replace s old new n =
     (if s = [] \<or> old = [] \<or> n = 0 then s
      else if prefix old s then new @ Replace (drop (length old) s) old new (n - 1)
      else hd s # Replace (tl s) old new n)"
  by pat_completeness auto
termination
  by (relation "measure (\<lambda>(s, old, new, n). length s)") (auto simp: neq_Nil_conv)

declare Replace.simps [simp del]

text \<open>Splitting at a separator: \<open>splitAt c ''a/b''\<close> is \<open>[''a'', ''b'']\<close>.\<close>

fun splitAt :: "char \<Rightarrow> string \<Rightarrow> string list" where
  "splitAt c [] = [[]]"
| "splitAt c (x # xs) =
     (if x = c then [] # splitAt c xs
      else (case splitAt c xs of [] \<Rightarrow> [[x]] | w # ws \<Rightarrow> (x # w) # ws))"

fun joinWith :: "string \<Rightarrow> string list \<Rightarrow> string" where
  "joinWith sep [] = []"
| "joinWith sep [w] = w"
| "joinWith sep (w # v # ws) = w @ sep @ joinWith sep (v # ws)"

text \<open>
  The model fixes the slash-separated implementation of \<open>path/filepath\<close> (every target
  but Windows), where \<open>FromSlash\<close> changes nothing and a path is absolute when it starts
  with a slash.
\<close>

definition IsAbs :: "path \<Rightarrow> bool" where
  "IsAbs p = (p \<noteq> [] \<and> hd p = CHR ''/'')"

definition FromSlash :: "string \<Rightarrow> path" where
  "FromSlash p = p"

text \<open>
  One step of \<open>filepath.Clean\<close> over the elements of a path, the kept elements held
  newest first: empty elements and \<open>.\<close> are dropped, \<open>..\<close> removes the element before it,
  is dropped at the root, and is kept at the start of a relative path.
\<close>

fun cleanStep :: "bool \<Rightarrow> string \<Rightarrow> string list \<Rightarrow> string list" where
  "cleanStep rooted e acc =
     (if e = [] \<or> e = ''.'' then acc
      else if e = ''..'' then
        (case acc of
           [] \<Rightarrow> (if rooted then [] else [e])
         | a # as \<Rightarrow> (if a = ''..'' then e # acc else as))
      else e # acc)"

definition cleanElems :: "path \<Rightarrow> string list" where
  "cleanElems p = rev (fold (cleanStep (IsAbs p)) (splitAt CHR ''/'' p) [])"

definition Clean :: "path \<Rightarrow> path" where
  "Clean p =
     (let r = (if IsAbs p then ''/'' else []) @ joinWith ''/'' (cleanElems p)
      in if r = [] then ''.'' else r)"

text \<open>\<open>filepath.Join\<close>: empty elements are ignored and the result is cleaned; with
  nothing left the result is the empty string.\<close>

definition Join :: "path list \<Rightarrow> path" where
  "Join es =
     (let ne = filter (\<lambda>e. e \<noteq> []) es
      in if ne = [] then [] else Clean (joinWith ''/'' ne))"

subsection \<open>The link name of a plugin\<close>


definition pluginNameToBin :: "string \<Rightarrow> bool \<Rightarrow> string" where
  "pluginNameToBin name isWin =
     (let name1 = Replace name ''-'' ''_'' (- 1);
          name2 = ''kubectl-'' @ name1
      in if isWin then name2 @ ''.exe'' else name2)"

subsection \<open>Defaults of a platform entry\<close>

definition applyDefaults :: "Platform \<Rightarrow> Platform" where
  "applyDefaults pl =
     (if Files pl = None
      then pl\<lparr>Files := Some [\<lparr>From = ''*'', To = ''.''\<rparr>]\<rparr>
      else pl)"

subsection \<open>The world outside the program\<close>

text \<open>
  The file system is a table from paths to entries, keyed by the path as the caller
  writes it (the installer passes results of \<open>filepath.Join\<close> and the paths it is
  given). Directory structure is not enforced: an entry may stand without its parents,
  and \<open>under d p\<close> says that \<open>p\<close> is \<open>d\<close> or lies below it. A regular file either
  decodes to a plugin manifest (a receipt) or does not. The \<open>journal\<close> lists the calls
  that leave the program, oldest first: the operating-system calls and the calls to
  the receipt store, the downloader and the file relocator.
\<close>

datatype node = Dir | File "Plugin option" | Link path

datatype Fetcher = HTTPFetcher | FileFetcher path

record archive =
  digest :: string
  entries :: "(path \<times> node) list"

datatype syscall =
    Lstat path
  | Stat path
  | MkdirAll path
  | RemoveAll path
  | Remove path
  | Symlink path path
  | ReceiptLoad path
  | ReceiptStore path
  | Download Fetcher string path
  | Move path path

record world =
  files :: "(path \<times> node) list"
  journal :: "syscall list"

text \<open>
  What the program cannot decide: the target it runs on, the \<open>KREW_OS\<close> variable (empty
  when unset), the result of \<open>os.Getwd\<close>, the calls the operating system refuses (for
  lack of permission, say: a refused call fails with \<open>EACCES\<close> and changes nothing),
  what a fetcher delivers for a locator, and which selectors match the (possibly
  overridden) operating system and architecture.
\<close>

record env =
  GOOS :: string
  KREW_OS :: string
  Getwd :: "path \<times> error option"
  refuses :: "syscall \<Rightarrow> bool"
  fetch :: "Fetcher \<Rightarrow> string \<Rightarrow> error + archive"
  selects :: "string \<Rightarrow> error + bool"

text \<open>
  Modelled from the spec: \<open>environment.Paths\<close> is not among the sources; section 6 of
  the specification makes it a provider of opaque paths, so it is a record of them.
\<close>

record Paths =
  BasePath :: path
  BinPath :: path
  DownloadPath :: path
  PluginInstallPath :: "string \<Rightarrow> path"
  PluginVersionInstallPath :: "string \<Rightarrow> string \<Rightarrow> path"
  PluginInstallReceiptPath :: "string \<Rightarrow> path"

definition called :: "syscall \<Rightarrow> world \<Rightarrow> world" where
  "called c s = s\<lparr>journal := journal s @ [c]\<rparr>"

definition under :: "path \<Rightarrow> path \<Rightarrow> bool" where
  "under d p = (p = d \<or> prefix (d @ ''/'') p)"

text \<open>Resolving a path through symbolic links, at most \<open>k\<close> of them; a link's target
  is looked up as it is written.\<close>

fun follow :: "nat \<Rightarrow> (path \<times> node) list \<Rightarrow> path \<Rightarrow> errno + node" where
  "follow 0 fs p = Inl ELOOP"
| "follow (Suc k) fs p =
     (case map_of fs p of
        None \<Rightarrow> Inl ENOENT
      | Some n \<Rightarrow> (case n of Link t \<Rightarrow> follow k fs t | Dir \<Rightarrow> Inr n | File c \<Rightarrow> Inr n))"

definition maxSymlinks :: nat where
  "maxSymlinks = 40"

subsection \<open>Operating-system calls (package \<open>os\<close>)\<close>

definition os_Lstat :: "env \<Rightarrow> path \<Rightarrow> world \<Rightarrow> (error + node) \<times> world" where
  "os_Lstat E p s =
     (let s1 = called (Lstat p) s
      in if refuses E (Lstat p) then (Inl (PathError ''lstat'' p EACCES), s1)
         else (case map_of (files s) p of
                 None \<Rightarrow> (Inl (PathError ''lstat'' p ENOENT), s1)
               | Some n \<Rightarrow> (Inr n, s1)))"

definition os_Stat :: "env \<Rightarrow> path \<Rightarrow> world \<Rightarrow> (error + node) \<times> world" where
  "os_Stat E p s =
     (let s1 = called (Stat p) s
      in if refuses E (Stat p) then (Inl (PathError ''stat'' p EACCES), s1)
         else (case follow maxSymlinks (files s) p of
                 Inl e \<Rightarrow> (Inl (PathError ''stat'' p e), s1)
               | Inr n \<Rightarrow> (Inr n, s1)))"

definition os_MkdirAll :: "env \<Rightarrow> path \<Rightarrow> world \<Rightarrow> error option \<times> world" where
  "os_MkdirAll E p s =
     (let s1 = called (MkdirAll p) s
      in if refuses E (MkdirAll p) then (Some (PathError ''mkdir'' p EACCES), s1)
         else (case map_of (files s) p of
                 None \<Rightarrow> (None, s1\<lparr>files := AList.update p Dir (files s)\<rparr>)
               | Some n \<Rightarrow> (if n = Dir then (None, s1)
                            else (Some (PathError ''mkdir'' p ENOTDIR), s1))))"

definition os_RemoveAll :: "env \<Rightarrow> path \<Rightarrow> world \<Rightarrow> error option \<times> world" where
  "os_RemoveAll E p s =
     (let s1 = called (RemoveAll p) s
      in if refuses E (RemoveAll p) then (Some (PathError ''unlinkat'' p EACCES), s1)
         else (None, s1\<lparr>files := filter (\<lambda>(q, n). \<not> under p q) (files s)\<rparr>))"

definition os_Remove :: "env \<Rightarrow> path \<Rightarrow> world \<Rightarrow> error option \<times> world" where
  "os_Remove E p s =
     (let s1 = called (Remove p) s
      in if refuses E (Remove p) then (Some (PathError ''remove'' p EACCES), s1)
         else (case map_of (files s) p of
                 None \<Rightarrow> (Some (PathError ''remove'' p ENOENT), s1)
               | Some n \<Rightarrow>
                   (if n = Dir \<and> list_ex (\<lambda>(q, m). q \<noteq> p \<and> under p q) (files s)
                    then (Some (PathError ''remove'' p ENOTEMPTY), s1)
                    else (None, s1\<lparr>files := AList.delete p (files s)\<rparr>))))"

definition os_Symlink :: "env \<Rightarrow> path \<Rightarrow> path \<Rightarrow> world \<Rightarrow> error option \<times> world" where
  "os_Symlink E oldname newname s =
     (let s1 = called (Symlink oldname newname) s
      in if refuses E (Symlink oldname newname)
         then (Some (PathError ''symlink'' newname EACCES), s1)
         else (case map_of (files s) newname of
                 None \<Rightarrow> (None, s1\<lparr>files := AList.update newname (Link oldname) (files s)\<rparr>)
               | Some n \<Rightarrow> (Some (PathError ''symlink'' newname EEXIST), s1)))"

text \<open>\<open>fi.Mode()&os.ModeSymlink != 0\<close>, and the type letter of \<open>fi.Mode().String()\<close>.\<close>

fun isSymlink :: "node \<Rightarrow> bool" where
  "isSymlink (Link t) = True"
| "isSymlink Dir = False"
| "isSymlink (File c) = False"

fun modeString :: "node \<Rightarrow> string" where
  "modeString (Link t) = ''L''"
| "modeString Dir = ''d''"
| "modeString (File c) = ''-''"

text \<open>\<open>filepath.Abs\<close>: an absolute path is cleaned, a relative one is joined to the
  working directory, and a failing \<open>os.Getwd\<close> is the error.\<close>

definition Abs :: "env \<Rightarrow> path \<Rightarrow> path \<times> error option" where
  "Abs E p =
     (if IsAbs p then (Clean p, None)
      else (case Getwd E of
              (wd, err) \<Rightarrow> (if err \<noteq> None then ([], err) else (Join [wd, p], None))))"

subsection \<open>Collaborators of the installer\<close>

text \<open>
  Modelled from the spec: \<open>receipt.Load\<close> is not among the sources. Section 4.6: \<open>load\<close>
  returns the persisted manifest or a distinguishable not-found condition (\<open>ENOENT\<close>,
  which is what \<open>Install\<close> and \<open>Uninstall\<close> test for with \<open>os.IsNotExist\<close>). A file that
  cannot be opened or does not decode to a manifest is another error.
\<close>

definition receipt_Load :: "env \<Rightarrow> path \<Rightarrow> world \<Rightarrow> (error + Plugin) \<times> world" where
  "receipt_Load E p s =
     (let s1 = called (ReceiptLoad p) s
      in if refuses E (ReceiptLoad p) then (Inl (PathError ''open'' p EACCES), s1)
         else (case follow maxSymlinks (files s) p of
                 Inl e \<Rightarrow> (Inl (PathError ''open'' p e), s1)
               | Inr n \<Rightarrow>
                   (case n of
                      File c \<Rightarrow> (case c of None \<Rightarrow> (Inl (DecodeError p), s1)
                                           | Some pl \<Rightarrow> (Inr pl, s1))
                    | Dir \<Rightarrow> (Inl (DecodeError p), s1)
                    | Link t \<Rightarrow> (Inl (DecodeError p), s1))))"

text \<open>
  Modelled from the spec: \<open>receipt.Store\<close> is not among the sources. Section 4.6: \<open>store\<close>
  serializes and writes the manifest and surfaces any write failure.
\<close>

definition receipt_Store :: "env \<Rightarrow> Plugin \<Rightarrow> path \<Rightarrow> world \<Rightarrow> error option \<times> world" where
  "receipt_Store E plugin p s =
     (let s1 = called (ReceiptStore p) s
      in if refuses E (ReceiptStore p) then (Some (PathError ''open'' p EACCES), s1)
         else (None, s1\<lparr>files := AList.update p (File (Some plugin)) (files s)\<rparr>))"

text \<open>
  Modelled from the spec: \<open>GetMatchingPlatform\<close> is not among the sources. Section 4.1:
  the first entry whose selector matches, with a found flag. Its caller also receives
  an error, so a selector that cannot be evaluated ends the search with that error.
\<close>

fun GetMatchingPlatform :: "env \<Rightarrow> Platform list \<Rightarrow> Platform \<times> bool \<times> error option" where
  "GetMatchingPlatform E [] = (zeroPlatform, False, None)"
| "GetMatchingPlatform E (pl # pls) =
     (case selects E (Selector pl) of
        Inl err \<Rightarrow> (zeroPlatform, False, Some err)
      | Inr m \<Rightarrow> (if m then (pl, True, None) else GetMatchingPlatform E pls))"

text \<open>
  Modelled from the spec: package \<open>download\<close> is not among the sources. Section 4.2:
  the whole byte stream is fetched, its checksum is compared with the expected one
  before anything is extracted, and on agreement the archive's contents are placed
  under the destination directory.
\<close>

definition download_Get ::
  "env \<Rightarrow> string \<Rightarrow> Fetcher \<Rightarrow> string \<Rightarrow> path \<Rightarrow> world \<Rightarrow> error option \<times> world" where
  "download_Get E sha256sum fetcher uri dst s =
     (let s1 = called (Download fetcher uri dst) s
      in (case fetch E fetcher uri of
            Inl err \<Rightarrow> (Some err, s1)
          | Inr a \<Rightarrow>
              (if digest a \<noteq> sha256sum then (Some (ChecksumMismatch sha256sum (digest a)), s1)
               else if refuses E (Download fetcher uri dst)
               then (Some (PathError ''extract'' dst EACCES), s1)
               else (None, s1\<lparr>files :=
                       fold (\<lambda>(rel, n). AList.update (Join [dst, rel]) n) (entries a) (files s)\<rparr>))))"

text \<open>
  Modelled from the spec: the glob matcher behind \<open>moveToInstallDir\<close> is not among the
  sources. Section 4.3 speaks of glob patterns: \<open>*\<close> stands for any run of characters
  within one path element, \<open>?\<close> for one character, anything else for itself.
\<close>

fun globMatch :: "string \<Rightarrow> string \<Rightarrow> bool" where
  "globMatch [] [] = True"
| "globMatch [] (c # cs) = False"
| "globMatch (g # gs) [] = (g = CHR ''*'' \<and> globMatch gs [])"
| "globMatch (g # gs) (c # cs) =
     (if g = CHR ''*'' then globMatch gs (c # cs) \<or> globMatch (g # gs) cs
      else (g = CHR ''?'' \<or> g = c) \<and> globMatch gs cs)"

text \<open>
  Modelled from the spec: where one file operation of \<open>moveToInstallDir\<close> (not among the
  sources) sends a path. Section 4.3: the glob is relative to the staging root and the
  destination relative to the install root. A path below the staging root whose
  leading elements match the glob goes to the destination, under the name of the
  last matched element, with what lies below it; any other path stays.
\<close>

definition relocate :: "path \<Rightarrow> path \<Rightarrow> FileOperation \<Rightarrow> path \<Rightarrow> path option" where
  "relocate src dst fo p =
     (let s = cleanElems src;
          e = cleanElems p;
          pat = cleanElems (From fo);
          k = length pat;
          rel = drop (length s) e
      in if prefix s e \<and> 0 < k \<and> k \<le> length rel \<and> list_all2 globMatch pat (take k rel)
         then Some (Join ([dst, To fo, last (take k rel)] @ drop k rel))
         else None)"

text \<open>
  Modelled from the spec: one file operation of \<open>moveToInstallDir\<close> (not among the
  sources) on the whole table. Section 4.3: what is moved overwrites what was at its
  destination, and an operation that selects nothing changes nothing.
\<close>

definition applyFileOp ::
  "path \<Rightarrow> path \<Rightarrow> (path \<times> node) list \<Rightarrow> FileOperation \<Rightarrow> (path \<times> node) list" where
  "applyFileOp src dst fs fo =
     (let moved = concat (map (\<lambda>(p, n). case relocate src dst fo p of
                                          None \<Rightarrow> [] | Some q \<Rightarrow> [(q, n)]) fs);
          kept = filter (\<lambda>(p, n). relocate src dst fo p = None \<and> map_of moved p = None) fs
      in moved @ kept)"

text \<open>
  Modelled from the spec: \<open>moveToInstallDir\<close> is not among the sources. Section 4.3: the
  operations are applied in list order, later ones on the output of earlier ones; a
  glob that selects nothing is no error.
\<close>

definition moveToInstallDir ::
  "env \<Rightarrow> path \<Rightarrow> path \<Rightarrow> FileOperation list option \<Rightarrow> world \<Rightarrow> error option \<times> world" where
  "moveToInstallDir E srcDir dst fos s =
     (let s1 = called (Move srcDir dst) s
      in if refuses E (Move srcDir dst) then (Some (PathError ''rename'' srcDir EACCES), s1)
         else (None, s1\<lparr>files := foldl (applyFileOp srcDir dst) (files s) (elems fos)\<rparr>))"

text \<open>
  Modelled from the spec: \<open>pathutil.IsSubPath\<close> is not among the sources. Section 4.4:
  the second path is equal to or nested under the first; the result is the path in
  between and the flag.
\<close>

definition IsSubPath :: "path \<Rightarrow> path \<Rightarrow> path \<times> bool" where
  "IsSubPath basePath subPath =
     (let b = cleanElems basePath; s = cleanElems subPath
      in if IsAbs basePath = IsAbs subPath \<and> prefix b s
         then (let r = joinWith ''/'' (drop (length b) s) in if r = [] then ''.'' else r, True)
         else ([], False))"

subsection \<open>The installer\<close>

record InstallOpts =
  ArchiveFileOverride :: string

record installOperation =
  pluginName :: string
  platform :: Platform
  downloadStagingDir :: path
  installDir :: path
  binDir :: path

definition isWindows :: "env \<Rightarrow> bool" where
  "isWindows E =
     (let goos = GOOS E;
          goos1 = (if KREW_OS E \<noteq> [] then KREW_OS E else goos)
      in goos1 = ''windows'')"

definition removeLink :: "env \<Rightarrow> path \<Rightarrow> world \<Rightarrow> error option \<times> world" where
  "removeLink E p s =
     (case os_Lstat E p s of
        (Inl err, s1) \<Rightarrow>
          (if IsNotExist (Some err) then (None, s1)
           else (Wrapf (Some err) ''failed to read the symlink in %q'' [p], s1))
      | (Inr fi, s1) \<Rightarrow>
          (if \<not> isSymlink fi
           then (Some (Errorf ''file %q is not a symlink (mode=%s)'' [p, modeString fi]), s1)
           else (case os_Remove E p s1 of
                   (err, s2) \<Rightarrow>
                     (if err \<noteq> None
                      then (Wrapf err ''failed to remove the symlink in %q'' [p], s2)
                      else (None, s2)))))"

definition createOrUpdateLink ::
  "env \<Rightarrow> path \<Rightarrow> path \<Rightarrow> string \<Rightarrow> world \<Rightarrow> error option \<times> world" where
  "createOrUpdateLink E bd binary plugin s =
     (let dst = Join [bd, pluginNameToBin plugin (isWindows E)]
      in (case removeLink E dst s of
            (err, s1) \<Rightarrow>
              (if err \<noteq> None then (Wrap err ''failed to remove old symlink'', s1)
               else (case os_Stat E binary s1 of
                       (r, s2) \<Rightarrow>
                         (let err = (case r of Inl e \<Rightarrow> Some e | Inr fi \<Rightarrow> None)
                          in if IsNotExist err
                             then (Wrapf err
                                     ''can't create symbolic link, source binary (%q) cannot be found in extracted archive''
                                     [binary], s2)
                             else (case os_Symlink E binary dst s2 of
                                     (err, s3) \<Rightarrow>
                                       (if err \<noteq> None
                                        then (Wrapf err ''failed to create a symlink form %q to %q''
                                                [bd, dst], s3)
                                        else (None, s3))))))))"

definition downloadAndExtract ::
  "env \<Rightarrow> path \<Rightarrow> string \<Rightarrow> string \<Rightarrow> string \<Rightarrow> world \<Rightarrow> error option \<times> world" where
  "downloadAndExtract E extractDir uri sha256sum overrideFile s =
     (let fetcher = (if overrideFile \<noteq> [] then FileFetcher overrideFile else HTTPFetcher)
      in (case download_Get E sha256sum fetcher uri extractDir s of
            (err, s1) \<Rightarrow> (Wrap err ''failed to download and verify file'', s1)))"

text \<open>
  The statements of \<open>install\<close> after the deferred clean-up is registered. Where the
  source passes its variable \<open>err\<close> to \<open>Wrapf\<close>, the model passes the value that variable
  holds there.
\<close>

definition install_steps ::
  "env \<Rightarrow> installOperation \<Rightarrow> InstallOpts \<Rightarrow> world \<Rightarrow> error option \<times> world" where
  "install_steps E opn opts s =
     (case downloadAndExtract E (downloadStagingDir opn) (URI (platform opn))
             (Sha256 (platform opn)) (ArchiveFileOverride opts) s of
        (err, s1) \<Rightarrow>
          (if err \<noteq> None then (Wrap err ''failed to download and extract'', s1)
           else
            (let pl = applyDefaults (platform opn)
             in (case moveToInstallDir E (downloadStagingDir opn) (installDir opn) (Files pl) s1 of
                   (err, s2) \<Rightarrow>
                     (if err \<noteq> None
                      then (Wrap err ''failed while moving files to the installation directory'', s2)
                      else
                       (case Abs E (installDir opn) of
                          (subPathAbs, err) \<Rightarrow>
                            (if err \<noteq> None
                             then (Wrapf err ''failed to get the absolute fullPath of %q''
                                     [installDir opn], s2)
                             else
                              (let fullPath = Join [installDir opn, FromSlash (Bin pl)]
                               in (case Abs E fullPath of
                                     (pathAbs, err) \<Rightarrow>
                                       (if err \<noteq> None
                                        then (Wrapf err ''failed to get the absolute fullPath of %q''
                                                [fullPath], s2)
                                        else if \<not> snd (IsSubPath subPathAbs pathAbs)
                                        then (Wrapf err
                                                ''the fullPath %q does not extend the sub-fullPath %q''
                                                [fullPath, installDir opn], s2)
                                        else (case createOrUpdateLink E (binDir opn) fullPath
                                                     (pluginName opn) s2 of
                                                (err, s3) \<Rightarrow>
                                                  (Wrap err ''failed to link installed plugin'',
                                                   s3))))))))))))"

text \<open>
  \<open>install\<close>: the staging directory is created, the deferred function is registered,
  the steps run, and the deferred function removes the staging directory on the way
  out; its own failure is logged as a warning and does not change the result.
\<close>

definition install ::
  "env \<Rightarrow> installOperation \<Rightarrow> InstallOpts \<Rightarrow> world \<Rightarrow> error option \<times> world" where
  "install E opn opts s =
     (case os_MkdirAll E (downloadStagingDir opn) s of
        (err, s1) \<Rightarrow>
          (if err \<noteq> None
           then (Wrapf err ''could not create download path %q'' [downloadStagingDir opn], s1)
           else (case install_steps E opn opts s1 of
                   (result, s2) \<Rightarrow>
                     (case os_RemoveAll E (downloadStagingDir opn) s2 of
                        (warning, s3) \<Rightarrow> (result, s3)))))"

definition Install ::
  "env \<Rightarrow> Paths \<Rightarrow> Plugin \<Rightarrow> InstallOpts \<Rightarrow> world \<Rightarrow> error option \<times> world" where
  "Install E p plugin opts s =
     (case receipt_Load E (PluginInstallReceiptPath p (Name plugin)) s of
        (r, s1) \<Rightarrow>
          (let err = (case r of Inl e \<Rightarrow> Some e | Inr found \<Rightarrow> None)
           in if err = None then (Some ErrIsAlreadyInstalled, s1)
              else if \<not> IsNotExist err then (Wrap err ''failed to look up plugin receipt'', s1)
              else
               (case GetMatchingPlatform E (Platforms (Spec plugin)) of
                  (candidate, ok, err) \<Rightarrow>
                    (if err \<noteq> None
                     then (Wrap err ''failed trying to find a matching platform in plugin spec'', s1)
                     else if \<not> ok
                     then (Wrapf err ''plugin %q does not offer installation for this platform''
                             [Name plugin], s1)
                     else
                      (case install E
                              \<lparr>pluginName = Name plugin,
                               platform = candidate,
                               downloadStagingDir = Join [DownloadPath p, Name plugin],
                               installDir = PluginVersionInstallPath p (Name plugin)
                                              (Version (Spec plugin)),
                               binDir = BinPath p\<rparr> opts s1 of
                         (err, s2) \<Rightarrow>
                           (if err \<noteq> None then (Wrap err ''install failed'', s2)
                            else
                             (case receipt_Store E plugin
                                     (PluginInstallReceiptPath p (Name plugin)) s2 of
                                (err, s3) \<Rightarrow>
                                  (Wrap err
                                     ''installation receipt could not be stored, uninstall may fail'',
                                   s3))))))))"


subsection \<open>A worked installation\<close>

text \<open>
  One concrete setting, used to run the definitions: a Linux host on which nothing is
  refused, the layout of paths below \<open>/krew\<close>, and a plugin \<open>foo\<close> at version \<open>v1\<close>
  whose archive holds the single file \<open>foo\<close> and has the digest \<open>abc\<close>.
\<close>

definition krewPaths :: Paths where
  "krewPaths =
     \<lparr>BasePath = ''/krew'',
      BinPath = ''/krew/bin'',
      DownloadPath = ''/krew/dl'',
      PluginInstallPath = (\<lambda>name. Join [''/krew/store'', name]),
      PluginVersionInstallPath = (\<lambda>name version. Join [''/krew/store'', name, version]),
      PluginInstallReceiptPath = (\<lambda>name. Join [''/krew/receipts'', name @ ''.yaml''])\<rparr>"

definition linuxHost :: env where
  "linuxHost =
     \<lparr>GOOS = ''linux'',
      KREW_OS = [],
      Getwd = (''/home/user'', None),
      refuses = (\<lambda>c. False),
      fetch = (\<lambda>f uri. Inr \<lparr>digest = ''abc'', entries = [(''foo'', File None)]\<rparr>),
      selects = (\<lambda>sel. Inr (sel = ''linux''))\<rparr>"

definition windowsTarget :: env where
  "windowsTarget = linuxHost\<lparr>KREW_OS := ''windows'', selects := (\<lambda>sel. Inr True)\<rparr>"

definition fooPlatform :: "string \<Rightarrow> FileOperation list option \<Rightarrow> Platform" where
  "fooPlatform b fos =
     \<lparr>URI = ''file:///tmp/foo.tar.gz'', Sha256 = ''abc'', Selector = ''linux'',
      Files = fos, Bin = b\<rparr>"

definition fooPlugin :: "Platform list \<Rightarrow> Plugin" where
  "fooPlugin pls =
     \<lparr>Name = ''foo'',
      Spec = \<lparr>Version = ''v1'', Homepage = [], ShortDescription = [], Platforms = pls\<rparr>\<rparr>"

definition noOverride :: InstallOpts where
  "noOverride = \<lparr>ArchiveFileOverride = []\<rparr>"

definition emptyWorld :: world where
  "emptyWorld = \<lparr>files = [], journal = []\<rparr>"

text \<open>The operation \<open>Install\<close> hands to \<open>install\<close> for \<open>foo\<close>, for a given \<open>bin\<close>.\<close>

definition fooOperation :: "string \<Rightarrow> installOperation" where
  "fooOperation b =
     \<lparr>pluginName = ''foo'',
      platform = fooPlatform b None,
      downloadStagingDir = ''/krew/dl/foo'',
      installDir = ''/krew/store/foo/v1'',
      binDir = ''/krew/bin''\<rparr>"

text \<open>The same host with exactly one call refused.\<close>

definition refusing :: "syscall \<Rightarrow> env" where
  "refusing c = linuxHost\<lparr>refuses := (\<lambda>x. x = c)\<rparr>"

text \<open>Two worlds with something at the link path of \<open>foo\<close>: a symlink left by an
  earlier version, and a regular file that is nobody's link.\<close>

definition linkedWorld :: world where
  "linkedWorld =
     \<lparr>files = [(''/krew/bin/kubectl-foo'', Link ''/krew/store/foo/v0/foo'')], journal = []\<rparr>"

definition foreignWorld :: world where
  "foreignWorld = \<lparr>files = [(''/krew/bin/kubectl-foo'', File None)], journal = []\<rparr>"

text \<open>The world after \<open>foo\<close> has been installed: its binary, its link and its receipt.\<close>

definition installedWorld :: world where
  "installedWorld =
     \<lparr>files = [(''/krew/store/foo/v1/foo'', File None),
               (''/krew/bin/kubectl-foo'', Link ''/krew/store/foo/v1/foo''),
               (''/krew/receipts/foo.yaml'', File (Some (fooPlugin [fooPlatform ''foo'' None])))],
      journal = []\<rparr>"

section \<open>Properties\<close>

lemma Replace_char_all:
  "n < 0 \<Longrightarrow> Replace s [a] [b] n = map (\<lambda>c. if c = a then b else c) s"
proof (induction s arbitrary: n)
  case Nil
  show ?case by (subst Replace.simps) simp
next
  case (Cons x xs)
  have neg: "n - 1 < 0" using Cons.prems by simp
  show ?case
  proof (cases "x = a")
    case True
    then show ?thesis
      using Cons.prems Cons.IH [OF neg] by (subst Replace.simps) simp
  next
    case False
    then show ?thesis
      using Cons.prems Cons.IH [OF Cons.prems] by (subst Replace.simps) simp
  qed
qed

subsection \<open>The calls and the journal\<close>

lemma files_called: "files (called c s) = files s"
  by (simp add: called_def)

lemma journal_called: "journal (called c s) = journal s @ [c]"
  by (simp add: called_def)

lemma pluginNameToBin_eq:
  "pluginNameToBin name w =
     ''kubectl-'' @ map (\<lambda>c. if c = CHR ''-'' then CHR ''_'' else c) name
       @ (if w then ''.exe'' else [])"
  by (simp add: pluginNameToBin_def Let_def Replace_char_all)

text \<open>\<open>removeLink\<close>, outcome by outcome.\<close>

lemma removeLink_unfold:
  "removeLink E p s =
     (if refuses E (Lstat p)
      then (Some (Wrapped (PathError ''lstat'' p EACCES) ''failed to read the symlink in %q'' [p]),
            called (Lstat p) s)
      else (case map_of (files s) p of
              None \<Rightarrow> (None, called (Lstat p) s)
            | Some n \<Rightarrow>
                (if \<not> isSymlink n
                 then (Some (Errorf ''file %q is not a symlink (mode=%s)'' [p, modeString n]),
                       called (Lstat p) s)
                 else if refuses E (Remove p)
                 then (Some (Wrapped (PathError ''remove'' p EACCES)
                               ''failed to remove the symlink in %q'' [p]),
                       called (Remove p) (called (Lstat p) s))
                 else (None, (called (Remove p) (called (Lstat p) s))
                               \<lparr>files := AList.delete p (files s)\<rparr>))))"
proof (cases "map_of (files s) p")
  case None
  then show ?thesis
    by (simp add: removeLink_def os_Lstat_def Let_def)
next
  case (Some n)
  then show ?thesis
    by (cases n) (simp_all add: removeLink_def os_Lstat_def os_Remove_def Let_def files_called)
qed

lemma receipt_Load_world: "snd (receipt_Load E p s) = called (ReceiptLoad p) s"
  by (simp add: receipt_Load_def Let_def split: sum.splits node.splits option.splits)

lemma os_MkdirAll_journal: "journal (snd (os_MkdirAll E p s)) = journal s @ [MkdirAll p]"
  by (simp add: os_MkdirAll_def Let_def journal_called split: option.splits)

lemma os_RemoveAll_journal: "journal (snd (os_RemoveAll E p s)) = journal s @ [RemoveAll p]"
  by (simp add: os_RemoveAll_def Let_def journal_called)


lemma os_Stat_world: "snd (os_Stat E p s) = called (Stat p) s"
  by (simp add: os_Stat_def Let_def split: sum.splits)

lemma os_Symlink_journal:
  "journal (snd (os_Symlink E old new s)) = journal s @ [Symlink old new]"
  by (simp add: os_Symlink_def Let_def journal_called split: option.splits)

lemma receipt_Store_journal:
  "journal (snd (receipt_Store E plugin p s)) = journal s @ [ReceiptStore p]"
  by (simp add: receipt_Store_def Let_def journal_called)

lemma download_Get_journal:
  "journal (snd (download_Get E sha f uri dst s)) = journal s @ [Download f uri dst]"
  by (simp add: download_Get_def Let_def journal_called split: sum.splits)

lemma downloadAndExtract_journal:
  "journal (snd (downloadAndExtract E dst uri sha ov s))
     = journal s @ [Download (if ov \<noteq> [] then FileFetcher ov else HTTPFetcher) uri dst]"
  by (simp add: downloadAndExtract_def Let_def case_prod_beta download_Get_journal)

lemma moveToInstallDir_journal:
  "journal (snd (moveToInstallDir E src dst fos s)) = journal s @ [Move src dst]"
  by (simp add: moveToInstallDir_def Let_def journal_called)

lemma removeLink_journal:
  "prefix (journal s @ [Lstat p]) (journal (snd (removeLink E p s)))"
  by (simp add: removeLink_unfold journal_called split: option.splits)

lemma createOrUpdateLink_journal:
  "prefix (journal s) (journal (snd (createOrUpdateLink E bd binary plugin s)))"
proof -
  let ?dst = "Join [bd, pluginNameToBin plugin (isWindows E)]"
  obtain e1 s1 where r: "removeLink E ?dst s = (e1, s1)"
    by (cases "removeLink E ?dst s")
  have p1: "prefix (journal s) (journal s1)"
    using removeLink_journal [of s ?dst E] r by (auto elim: prefixE)
  obtain r2 s2 where st: "os_Stat E binary s1 = (r2, s2)"
    by (cases "os_Stat E binary s1")
  have p2: "prefix (journal s1) (journal s2)"
    using os_Stat_world [of E binary s1] st by (simp add: journal_called)
  obtain e3 s3 where sy: "os_Symlink E binary ?dst s2 = (e3, s3)"
    by (cases "os_Symlink E binary ?dst s2")
  have p3: "prefix (journal s2) (journal s3)"
    using os_Symlink_journal [of E binary ?dst s2] sy by simp
  have "snd (createOrUpdateLink E bd binary plugin s) \<in> {s1, s2, s3}"
    using r st sy by (simp add: createOrUpdateLink_def Let_def)
  with p1 p2 p3 show ?thesis
    by (auto intro: prefix_order.trans)
qed

lemma install_steps_journal:
  "prefix (journal s) (journal (snd (install_steps E opn opts s)))"
proof -
  let ?st = "downloadStagingDir opn"
  obtain e1 s1 where d: "downloadAndExtract E ?st (URI (platform opn)) (Sha256 (platform opn))
                           (ArchiveFileOverride opts) s = (e1, s1)"
    by (cases "downloadAndExtract E ?st (URI (platform opn)) (Sha256 (platform opn))
                           (ArchiveFileOverride opts) s")
  have p1: "prefix (journal s) (journal s1)"
    using downloadAndExtract_journal [of E ?st "URI (platform opn)" "Sha256 (platform opn)"
            "ArchiveFileOverride opts" s] d by simp
  let ?pl = "applyDefaults (platform opn)"
  obtain e2 s2 where m: "moveToInstallDir E ?st (installDir opn) (Files ?pl) s1 = (e2, s2)"
    by (cases "moveToInstallDir E ?st (installDir opn) (Files ?pl) s1")
  have p2: "prefix (journal s1) (journal s2)"
    using moveToInstallDir_journal [of E ?st "installDir opn" "Files ?pl" s1] m by simp
  let ?full = "Join [installDir opn, FromSlash (Bin ?pl)]"
  obtain e3 s3 where c: "createOrUpdateLink E (binDir opn) ?full (pluginName opn) s2 = (e3, s3)"
    by (cases "createOrUpdateLink E (binDir opn) ?full (pluginName opn) s2")
  have p3: "prefix (journal s2) (journal s3)"
    using createOrUpdateLink_journal [of s2 E "binDir opn" ?full "pluginName opn"] c by simp
  have "snd (install_steps E opn opts s) \<in> {s1, s2, s3}"
    using d m c by (simp add: install_steps_def Let_def split: prod.splits)
  with p1 p2 p3 show ?thesis
    by (auto intro: prefix_order.trans)
qed

lemma removeLink_ok_absent:
  "removeLink E p s = (None, s1) \<Longrightarrow> map_of (files s1) p = None"
  by (auto simp: removeLink_unfold files_called delete_conv' split: if_splits option.splits)

lemma os_Symlink_ok:
  "os_Symlink E old new s = (None, s') \<Longrightarrow> map_of (files s') new = Some (Link old)"
  by (auto simp: os_Symlink_def Let_def update_conv' split: if_splits option.splits)

lemma createOrUpdateLink_ok:
  assumes "createOrUpdateLink E bd binary plugin s = (None, s')"
  shows "map_of (files s') (Join [bd, pluginNameToBin plugin (isWindows E)]) = Some (Link binary)"
proof -
  let ?dst = "Join [bd, pluginNameToBin plugin (isWindows E)]"
  obtain e1 s1 where r: "removeLink E ?dst s = (e1, s1)"
    by (cases "removeLink E ?dst s")
  obtain r2 s2 where st: "os_Stat E binary s1 = (r2, s2)"
    by (cases "os_Stat E binary s1")
  obtain e3 s3 where sy: "os_Symlink E binary ?dst s2 = (e3, s3)"
    by (cases "os_Symlink E binary ?dst s2")
  from assms r st sy have "e3 = None \<and> s3 = s'"
    by (auto simp: createOrUpdateLink_def Let_def Wrap_def split: if_splits sum.splits)
  with sy show ?thesis by (simp add: os_Symlink_ok)
qed

subsection \<open>The name of the published link\<close>

text \<open>
  C3, as the code has it. The link name of a plugin is its name with every \<open>-\<close> replaced
  by \<open>_\<close>, prefixed with \<open>kubectl-\<close>, plus \<open>.exe\<close> on the Windows target: \<open>kubectl-foo\<close>
  for \<open>foo\<close> elsewhere and \<open>kubectl-foo.exe\<close> on Windows (the prefix keeps its dash).
  Whenever the link step succeeds, the symlink it publishes stands in the bin directory
  under that name and points at the binary.
\<close>

theorem link_name:
  "pluginNameToBin name w =
     ''kubectl-'' @ map (\<lambda>c. if c = CHR ''-'' then CHR ''_'' else c) name
       @ (if w then ''.exe'' else [])
   \<and> pluginNameToBin ''foo'' False = ''kubectl-foo''
   \<and> pluginNameToBin ''foo'' True = ''kubectl-foo.exe''
   \<and> (\<forall>s'. createOrUpdateLink E bd binary name s = (None, s') \<longrightarrow>
          map_of (files s') (Join [bd, pluginNameToBin name (isWindows E)]) = Some (Link binary))"
proof (intro conjI allI impI)
  show "pluginNameToBin name w =
     ''kubectl-'' @ map (\<lambda>c. if c = CHR ''-'' then CHR ''_'' else c) name
       @ (if w then ''.exe'' else [])"
    by (rule pluginNameToBin_eq)
  show "pluginNameToBin ''foo'' False = ''kubectl-foo''"
    by (simp add: pluginNameToBin_eq)
  show "pluginNameToBin ''foo'' True = ''kubectl-foo.exe''"
    by (simp add: pluginNameToBin_eq)
next
  fix s'
  assume "createOrUpdateLink E bd binary name s = (None, s')"
  then show "map_of (files s') (Join [bd, pluginNameToBin name (isWindows E)]) = Some (Link binary)"
    by (rule createOrUpdateLink_ok)
qed

text \<open>The link step for \<open>foo\<close> on the Windows target, run on the extracted binary.\<close>

theorem link_name_witness:
  "createOrUpdateLink windowsTarget ''/krew/bin'' ''/krew/store/foo/v1/foo'' ''foo''
     \<lparr>files = [(''/krew/store/foo/v1/foo'', File None)], journal = []\<rparr>
   = (None,
      \<lparr>files = [(''/krew/store/foo/v1/foo'', File None),
                (''/krew/bin/kubectl-foo.exe'', Link ''/krew/store/foo/v1/foo'')],
       journal = [Lstat ''/krew/bin/kubectl-foo.exe'', Stat ''/krew/store/foo/v1/foo'',
                  Symlink ''/krew/store/foo/v1/foo'' ''/krew/bin/kubectl-foo.exe'']\<rparr>)
   \<and> map_of [(''/krew/store/foo/v1/foo'', File None),
              (''/krew/bin/kubectl-foo.exe'', Link ''/krew/store/foo/v1/foo'')]
         (Join [''/krew/bin'', pluginNameToBin ''foo'' (isWindows windowsTarget)])
       = Some (Link ''/krew/store/foo/v1/foo'')"
proof -
  let ?s = "\<lparr>files = [(''/krew/store/foo/v1/foo'', File None)], journal = []\<rparr>"
  let ?s' = "\<lparr>files = [(''/krew/store/foo/v1/foo'', File None),
                (''/krew/bin/kubectl-foo.exe'', Link ''/krew/store/foo/v1/foo'')],
       journal = [Lstat ''/krew/bin/kubectl-foo.exe'', Stat ''/krew/store/foo/v1/foo'',
                  Symlink ''/krew/store/foo/v1/foo'' ''/krew/bin/kubectl-foo.exe'']\<rparr>"
  have run: "createOrUpdateLink windowsTarget ''/krew/bin'' ''/krew/store/foo/v1/foo'' ''foo'' ?s
             = (None, ?s')"
    by code_simp
  from link_name [of "''foo''" True windowsTarget "''/krew/bin''" "''/krew/store/foo/v1/foo''" ?s]
  have "\<forall>s'. createOrUpdateLink windowsTarget ''/krew/bin'' ''/krew/store/foo/v1/foo'' ''foo'' ?s
               = (None, s') \<longrightarrow>
             map_of (files s') (Join [''/krew/bin'', pluginNameToBin ''foo'' (isWindows windowsTarget)])
               = Some (Link ''/krew/store/foo/v1/foo'')"
    by blast
  with run show ?thesis by simp
qed

text \<open>
  On the Windows target a successful install of \<open>foo\<close> publishes \<open>kubectl-foo.exe\<close>;
  nothing is published as \<open>kubectl_foo.exe\<close>.
\<close>

theorem link_name_windows_counterexample:
  "pluginNameToBin ''foo'' True \<noteq> ''kubectl_foo.exe''
   \<and> fst (Install windowsTarget krewPaths (fooPlugin [fooPlatform ''foo'' None]) noOverride
           emptyWorld) = None
   \<and> map_of (files (snd (Install windowsTarget krewPaths (fooPlugin [fooPlatform ''foo'' None])
                            noOverride emptyWorld))) ''/krew/bin/kubectl_foo.exe'' = None
   \<and> map_of (files (snd (Install windowsTarget krewPaths (fooPlugin [fooPlatform ''foo'' None])
                            noOverride emptyWorld))) ''/krew/bin/kubectl-foo.exe''
       = Some (Link ''/krew/store/foo/v1/foo'')"
  by code_simp

subsection \<open>Names that share a link\<close>

text \<open>
  C10. The link name is not injective in the plugin name: two names that agree once
  every \<open>-\<close> is replaced by \<open>_\<close> (\<open>a-b\<close> and \<open>a_b\<close>, say) get the same executable name
  and the same link path, the link step does the same for both, and a successful
  link step for one leaves its binary at the link path of the other.
\<close>

theorem link_name_collision:
  "(\<forall>a b. Replace a ''-'' ''_'' (- 1) = Replace b ''-'' ''_'' (- 1) \<longrightarrow>
      pluginNameToBin a w = pluginNameToBin b w
      \<and> Join [bd, pluginNameToBin a (isWindows E)] = Join [bd, pluginNameToBin b (isWindows E)]
      \<and> createOrUpdateLink E bd binary a s = createOrUpdateLink E bd binary b s
      \<and> (\<forall>s'. createOrUpdateLink E bd binary b s = (None, s') \<longrightarrow>
             map_of (files s') (Join [bd, pluginNameToBin a (isWindows E)]) = Some (Link binary)))
   \<and> \<not> inj (\<lambda>name. pluginNameToBin name w)"
proof (intro conjI allI impI)
  fix a b
  assume eq: "Replace a ''-'' ''_'' (- 1) = Replace b ''-'' ''_'' (- 1)"
  then show names: "pluginNameToBin a w = pluginNameToBin b w"
    by (simp add: pluginNameToBin_def Let_def)
  from eq have same: "pluginNameToBin a (isWindows E) = pluginNameToBin b (isWindows E)"
    by (simp add: pluginNameToBin_def Let_def)
  then show "Join [bd, pluginNameToBin a (isWindows E)] = Join [bd, pluginNameToBin b (isWindows E)]"
    by simp
  from same show "createOrUpdateLink E bd binary a s = createOrUpdateLink E bd binary b s"
    by (simp add: createOrUpdateLink_def)
  fix s'
  assume "createOrUpdateLink E bd binary b s = (None, s')"
  then have "map_of (files s') (Join [bd, pluginNameToBin b (isWindows E)]) = Some (Link binary)"
    by (rule createOrUpdateLink_ok)
  with same show "map_of (files s') (Join [bd, pluginNameToBin a (isWindows E)]) = Some (Link binary)"
    by simp
next
  have "pluginNameToBin ''a-b'' w = pluginNameToBin ''a_b'' w"
    by (simp add: pluginNameToBin_eq)
  moreover have "''a-b'' \<noteq> ''a_b''"
    by simp
  ultimately show "\<not> inj (\<lambda>name. pluginNameToBin name w)"
    by (auto simp: inj_def)
qed

text \<open>The plugins \<open>a-b\<close> and \<open>a_b\<close> on the Linux host: linking \<open>a_b\<close> replaces the
  link of \<open>a-b\<close>.\<close>

theorem link_name_collision_witness:
  "''a-b'' \<noteq> ''a_b''
   \<and> Replace ''a-b'' ''-'' ''_'' (- 1) = Replace ''a_b'' ''-'' ''_'' (- 1)
   \<and> pluginNameToBin ''a-b'' False = ''kubectl-a_b''
   \<and> pluginNameToBin ''a_b'' False = ''kubectl-a_b''
   \<and> Join [''/krew/bin'', pluginNameToBin ''a-b'' (isWindows linuxHost)]
       = Join [''/krew/bin'', pluginNameToBin ''a_b'' (isWindows linuxHost)]
   \<and> map_of [(''/krew/store/a_b/v1/a_b'', File None),
              (''/krew/bin/kubectl-a_b'', Link ''/krew/store/a_b/v1/a_b'')]
         (Join [''/krew/bin'', pluginNameToBin ''a-b'' (isWindows linuxHost)])
       = Some (Link ''/krew/store/a_b/v1/a_b'')"
proof -
  let ?s = "\<lparr>files = [(''/krew/store/a_b/v1/a_b'', File None),
                       (''/krew/bin/kubectl-a_b'', Link ''/krew/store/a-b/v1/a-b'')],
              journal = []\<rparr>"
  let ?s' = "\<lparr>files = [(''/krew/store/a_b/v1/a_b'', File None),
                        (''/krew/bin/kubectl-a_b'', Link ''/krew/store/a_b/v1/a_b'')],
               journal = [Lstat ''/krew/bin/kubectl-a_b'', Remove ''/krew/bin/kubectl-a_b'',
                          Stat ''/krew/store/a_b/v1/a_b'',
                          Symlink ''/krew/store/a_b/v1/a_b'' ''/krew/bin/kubectl-a_b'']\<rparr>"
  have h: "Replace ''a-b'' ''-'' ''_'' (- 1) = Replace ''a_b'' ''-'' ''_'' (- 1)"
    by code_simp
  have v: "pluginNameToBin ''a_b'' False = ''kubectl-a_b''"
    by code_simp
  have run: "createOrUpdateLink linuxHost ''/krew/bin'' ''/krew/store/a_b/v1/a_b'' ''a_b'' ?s
             = (None, ?s')"
    by code_simp
  have fs: "files ?s' = [(''/krew/store/a_b/v1/a_b'', File None),
                        (''/krew/bin/kubectl-a_b'', Link ''/krew/store/a_b/v1/a_b'')]"
    by simp
  note a = link_name_collision [of False "''/krew/bin''" linuxHost "''/krew/store/a_b/v1/a_b''" ?s,
             THEN conjunct1, THEN spec, THEN spec, THEN mp, OF h]
  note a1 = a [THEN conjunct1, unfolded v]
  note a2 = a [THEN conjunct2, THEN conjunct1]
  note a4 = a [THEN conjunct2, THEN conjunct2, THEN conjunct2, THEN spec, THEN mp, OF run,
               unfolded fs]
  have ne: "''a-b'' \<noteq> ''a_b''"
    by simp
  show ?thesis
    by (intro conjI ne h a1 v a2 a4)
qed

subsection \<open>The default file operation\<close>








subsection \<open>Removing a link\<close>

lemma removeLink_other_entries:
  "q \<noteq> p \<Longrightarrow> map_of (files (snd (removeLink E p s))) q = map_of (files s) q"
  by (simp add: removeLink_unfold files_called delete_conv' split: option.splits)

lemma removeLink_failed_files:
  "fst (removeLink E p s) \<noteq> None \<Longrightarrow> files (snd (removeLink E p s)) = files s"
  by (simp add: removeLink_unfold files_called split: option.splits if_splits)

lemma createOrUpdateLink_foreign:
  assumes "map_of (files s) (Join [bd, pluginNameToBin plugin (isWindows E)]) = Some n"
    and "\<not> isSymlink n"
  shows "fst (createOrUpdateLink E bd binary plugin s) \<noteq> None
         \<and> files (snd (createOrUpdateLink E bd binary plugin s)) = files s"
proof -
  let ?dst = "Join [bd, pluginNameToBin plugin (isWindows E)]"
  from assms have f: "fst (removeLink E ?dst s) \<noteq> None"
    by (simp add: removeLink_unfold)
  then have u: "files (snd (removeLink E ?dst s)) = files s"
    by (rule removeLink_failed_files)
  obtain e1 s1 where r: "removeLink E ?dst s = (e1, s1)"
    by (cases "removeLink E ?dst s")
  with f u have "e1 \<noteq> None" "files s1 = files s" by simp_all
  with r show ?thesis
    by (auto simp: createOrUpdateLink_def Let_def Wrap_def)
qed

text \<open>
  C7, as the code has it. \<open>removeLink\<close> asks \<open>os.Lstat\<close> about the path. If nothing
  exists there it succeeds and changes nothing. If the entry is not a symlink it fails
  and the entry is left untouched. If the entry is a symlink it calls \<open>os.Remove\<close>, and
  the link is gone when that call succeeds. When the operating system refuses the
  \<open>Lstat\<close> or the \<open>Remove\<close>, \<open>removeLink\<close> fails with that error wrapped and changes
  nothing. It never touches an entry at another path. Consequently the link step
  of an install that finds an entry that is not a symlink at the link path fails and
  leaves the file system as it was.
\<close>

theorem removeLink_outcomes:
  "(map_of (files s) p = None \<and> \<not> refuses E (Lstat p) \<longrightarrow>
      removeLink E p s = (None, called (Lstat p) s)
      \<and> files (snd (removeLink E p s)) = files s)
   \<and> (\<forall>n. map_of (files s) p = Some n \<and> \<not> isSymlink n \<longrightarrow>
      fst (removeLink E p s) \<noteq> None \<and> files (snd (removeLink E p s)) = files s)
   \<and> (\<forall>t. map_of (files s) p = Some (Link t)
          \<and> \<not> refuses E (Lstat p) \<and> \<not> refuses E (Remove p) \<longrightarrow>
      fst (removeLink E p s) = None
      \<and> files (snd (removeLink E p s)) = AList.delete p (files s)
      \<and> map_of (files (snd (removeLink E p s))) p = None)
   \<and> (refuses E (Lstat p) \<longrightarrow>
      fst (removeLink E p s)
        = Some (Wrapped (PathError ''lstat'' p EACCES) ''failed to read the symlink in %q'' [p])
      \<and> files (snd (removeLink E p s)) = files s)
   \<and> (\<forall>t. map_of (files s) p = Some (Link t)
          \<and> \<not> refuses E (Lstat p) \<and> refuses E (Remove p) \<longrightarrow>
      fst (removeLink E p s)
        = Some (Wrapped (PathError ''remove'' p EACCES) ''failed to remove the symlink in %q'' [p])
      \<and> files (snd (removeLink E p s)) = files s)
   \<and> (\<forall>q. q \<noteq> p \<longrightarrow> map_of (files (snd (removeLink E p s))) q = map_of (files s) q)
   \<and> (\<forall>n bd binary plugin.
         map_of (files s) (Join [bd, pluginNameToBin plugin (isWindows E)]) = Some n
         \<and> \<not> isSymlink n \<longrightarrow>
         fst (createOrUpdateLink E bd binary plugin s) \<noteq> None
         \<and> files (snd (createOrUpdateLink E bd binary plugin s)) = files s)"
proof (intro conjI allI impI)
  assume "map_of (files s) p = None \<and> \<not> refuses E (Lstat p)"
  then show "removeLink E p s = (None, called (Lstat p) s)"
    and "files (snd (removeLink E p s)) = files s"
    by (simp_all add: removeLink_unfold files_called)
next
  fix n
  assume "map_of (files s) p = Some n \<and> \<not> isSymlink n"
  then show "fst (removeLink E p s) \<noteq> None" and "files (snd (removeLink E p s)) = files s"
    by (simp_all add: removeLink_unfold files_called)
next
  fix t
  assume "map_of (files s) p = Some (Link t) \<and> \<not> refuses E (Lstat p) \<and> \<not> refuses E (Remove p)"
  then show "fst (removeLink E p s) = None"
    and "files (snd (removeLink E p s)) = AList.delete p (files s)"
    and "map_of (files (snd (removeLink E p s))) p = None"
    by (simp_all add: removeLink_unfold files_called delete_conv')
next
  assume "refuses E (Lstat p)"
  then show "fst (removeLink E p s)
        = Some (Wrapped (PathError ''lstat'' p EACCES) ''failed to read the symlink in %q'' [p])"
    and "files (snd (removeLink E p s)) = files s"
    by (simp_all add: removeLink_unfold files_called)
next
  fix t
  assume "map_of (files s) p = Some (Link t) \<and> \<not> refuses E (Lstat p) \<and> refuses E (Remove p)"
  then show "fst (removeLink E p s)
        = Some (Wrapped (PathError ''remove'' p EACCES) ''failed to remove the symlink in %q'' [p])"
    and "files (snd (removeLink E p s)) = files s"
    by (simp_all add: removeLink_unfold files_called)
next
  fix q
  assume "q \<noteq> p"
  then show "map_of (files (snd (removeLink E p s))) q = map_of (files s) q"
    by (rule removeLink_other_entries)
next
  fix n bd binary plugin
  assume a: "map_of (files s) (Join [bd, pluginNameToBin plugin (isWindows E)]) = Some n
         \<and> \<not> isSymlink n"
  then show "fst (createOrUpdateLink E bd binary plugin s) \<noteq> None"
    using createOrUpdateLink_foreign [of s bd plugin E n binary] by simp
  from a show "files (snd (createOrUpdateLink E bd binary plugin s)) = files s"
    using createOrUpdateLink_foreign [of s bd plugin E n binary] by simp
qed


theorem removeLink_outcomes_witness:
  "removeLink linuxHost ''/krew/bin/kubectl-foo'' emptyWorld
     = (None, called (Lstat ''/krew/bin/kubectl-foo'') emptyWorld)
   \<and> fst (removeLink linuxHost ''/krew/bin/kubectl-foo'' foreignWorld) \<noteq> None
   \<and> files (snd (removeLink linuxHost ''/krew/bin/kubectl-foo'' foreignWorld)) = files foreignWorld
   \<and> fst (removeLink linuxHost ''/krew/bin/kubectl-foo'' linkedWorld) = None
   \<and> map_of (files (snd (removeLink linuxHost ''/krew/bin/kubectl-foo'' linkedWorld)))
         ''/krew/bin/kubectl-foo'' = None
   \<and> fst (removeLink (refusing (Lstat ''/krew/bin/kubectl-foo'')) ''/krew/bin/kubectl-foo''
            linkedWorld)
       = Some (Wrapped (PathError ''lstat'' ''/krew/bin/kubectl-foo'' EACCES)
                 ''failed to read the symlink in %q'' [''/krew/bin/kubectl-foo''])
   \<and> files (snd (removeLink (refusing (Remove ''/krew/bin/kubectl-foo'')) ''/krew/bin/kubectl-foo''
                   linkedWorld)) = files linkedWorld
   \<and> map_of (files (snd (removeLink linuxHost ''/krew/bin/kubectl-foo'' installedWorld)))
         ''/krew/receipts/foo.yaml''
       = map_of (files installedWorld) ''/krew/receipts/foo.yaml''
   \<and> fst (createOrUpdateLink linuxHost ''/krew/bin'' ''/krew/store/foo/v1/foo'' ''foo''
            foreignWorld) \<noteq> None
   \<and> files (snd (createOrUpdateLink linuxHost ''/krew/bin'' ''/krew/store/foo/v1/foo'' ''foo''
                   foreignWorld)) = files foreignWorld"
proof -
  let ?p = "''/krew/bin/kubectl-foo''"
  have h1: "map_of (files emptyWorld) ?p = None \<and> \<not> refuses linuxHost (Lstat ?p)"
    by code_simp
  have h2: "map_of (files foreignWorld) ?p = Some (File None) \<and> \<not> isSymlink (File None)"
    by code_simp
  have h3: "map_of (files linkedWorld) ?p = Some (Link ''/krew/store/foo/v0/foo'')
            \<and> \<not> refuses linuxHost (Lstat ?p) \<and> \<not> refuses linuxHost (Remove ?p)"
    by code_simp
  have h4: "refuses (refusing (Lstat ?p)) (Lstat ?p)"
    by code_simp
  have h5: "map_of (files linkedWorld) ?p = Some (Link ''/krew/store/foo/v0/foo'')
            \<and> \<not> refuses (refusing (Remove ?p)) (Lstat ?p)
            \<and> refuses (refusing (Remove ?p)) (Remove ?p)"
    by code_simp
  have h6: "''/krew/receipts/foo.yaml'' \<noteq> ?p"
    by simp
  have h7: "map_of (files foreignWorld)
              (Join [''/krew/bin'', pluginNameToBin ''foo'' (isWindows linuxHost)])
            = Some (File None) \<and> \<not> isSymlink (File None)"
    by code_simp
  note a = removeLink_outcomes [of emptyWorld ?p linuxHost, THEN conjunct1, THEN mp, OF h1]
  note b = removeLink_outcomes [of foreignWorld ?p linuxHost, THEN conjunct2, THEN conjunct1,
             THEN spec, THEN mp, OF h2]
  note c = removeLink_outcomes [of linkedWorld ?p linuxHost, THEN conjunct2, THEN conjunct2,
             THEN conjunct1, THEN spec, THEN mp, OF h3]
  note d = removeLink_outcomes [of linkedWorld ?p "refusing (Lstat ?p)", THEN conjunct2,
             THEN conjunct2, THEN conjunct2, THEN conjunct1, THEN mp, OF h4]
  note e = removeLink_outcomes [of linkedWorld ?p "refusing (Remove ?p)", THEN conjunct2,
             THEN conjunct2, THEN conjunct2, THEN conjunct2, THEN conjunct1, THEN spec,
             THEN mp, OF h5]
  note f = removeLink_outcomes [of installedWorld ?p linuxHost, THEN conjunct2, THEN conjunct2,
             THEN conjunct2, THEN conjunct2, THEN conjunct2, THEN conjunct1, THEN spec,
             THEN mp, OF h6]
  note g = removeLink_outcomes [of foreignWorld ?p linuxHost, THEN conjunct2, THEN conjunct2,
             THEN conjunct2, THEN conjunct2, THEN conjunct2, THEN conjunct2,
             THEN spec, THEN spec, THEN spec, THEN spec, THEN mp, OF h7]
  show ?thesis
    by (intro conjI a [THEN conjunct1] b [THEN conjunct1] b [THEN conjunct2] c [THEN conjunct1]
          c [THEN conjunct2, THEN conjunct2] d [THEN conjunct1] e [THEN conjunct2] f
          g [THEN conjunct1] g [THEN conjunct2])
qed

text \<open>
  The entry is a symlink and the operating system refuses its removal: \<open>removeLink\<close>
  fails and the link is still there.
\<close>

theorem removeLink_refused_counterexample:
  "map_of (files linkedWorld) ''/krew/bin/kubectl-foo'' = Some (Link ''/krew/store/foo/v0/foo'')
   \<and> removeLink (refusing (Remove ''/krew/bin/kubectl-foo'')) ''/krew/bin/kubectl-foo'' linkedWorld
       = (Some (Wrapped (PathError ''remove'' ''/krew/bin/kubectl-foo'' EACCES)
                  ''failed to remove the symlink in %q'' [''/krew/bin/kubectl-foo'']),
          \<lparr>files = [(''/krew/bin/kubectl-foo'', Link ''/krew/store/foo/v0/foo'')],
           journal = [Lstat ''/krew/bin/kubectl-foo'', Remove ''/krew/bin/kubectl-foo'']\<rparr>)"
  by code_simp

subsection \<open>The receipt lookup that opens \<open>Install\<close>\<close>

lemma install_unfold:
  "install E opn opts s =
     (if fst (os_MkdirAll E (downloadStagingDir opn) s) \<noteq> None
      then (Wrapf (fst (os_MkdirAll E (downloadStagingDir opn) s))
              ''could not create download path %q'' [downloadStagingDir opn],
            snd (os_MkdirAll E (downloadStagingDir opn) s))
      else (fst (install_steps E opn opts (snd (os_MkdirAll E (downloadStagingDir opn) s))),
            snd (os_RemoveAll E (downloadStagingDir opn)
                   (snd (install_steps E opn opts (snd (os_MkdirAll E (downloadStagingDir opn) s)))))))"
  by (simp add: install_def case_prod_beta)

lemma install_journal:
  "prefix (journal s @ [MkdirAll (downloadStagingDir opn)]) (journal (snd (install E opn opts s)))"
proof (cases "fst (os_MkdirAll E (downloadStagingDir opn) s) \<noteq> None")
  case True
  then show ?thesis
    by (simp add: install_unfold os_MkdirAll_journal)
next
  case False
  let ?s1 = "snd (os_MkdirAll E (downloadStagingDir opn) s)"
  have "prefix (journal ?s1) (journal (snd (install_steps E opn opts ?s1)))"
    by (rule install_steps_journal)
  then have "prefix (journal ?s1)
               (journal (snd (install_steps E opn opts ?s1)) @ [RemoveAll (downloadStagingDir opn)])"
    by (rule prefix_prefix)
  with False show ?thesis
    by (simp add: install_unfold os_RemoveAll_journal os_MkdirAll_journal)
qed

lemma Install_found:
  "receipt_Load E (PluginInstallReceiptPath p (Name plugin)) s = (Inr found, s1) \<Longrightarrow>
   Install E p plugin opts s = (Some ErrIsAlreadyInstalled, s1)"
  by (simp add: Install_def)

lemma Install_lookup_failed:
  "receipt_Load E (PluginInstallReceiptPath p (Name plugin)) s = (Inl err, s1) \<Longrightarrow>
   \<not> IsNotExist (Some err) \<Longrightarrow>
   Install E p plugin opts s = (Some (Wrapped err ''failed to look up plugin receipt'' []), s1)"
  by (simp add: Install_def Wrap_def)

text \<open>What \<open>Install\<close> does once the lookup has said not-found.\<close>

lemma Install_not_found:
  assumes "receipt_Load E (PluginInstallReceiptPath p (Name plugin)) s = (Inl err, s1)"
    and "IsNotExist (Some err)"
  shows "Install E p plugin opts s =
    (case GetMatchingPlatform E (Platforms (Spec plugin)) of
       (candidate, ok, err) \<Rightarrow>
         (if err \<noteq> None
          then (Wrap err ''failed trying to find a matching platform in plugin spec'', s1)
          else if \<not> ok
          then (Wrapf err ''plugin %q does not offer installation for this platform''
                  [Name plugin], s1)
          else
           (case install E
                   \<lparr>pluginName = Name plugin,
                    platform = candidate,
                    downloadStagingDir = Join [DownloadPath p, Name plugin],
                    installDir = PluginVersionInstallPath p (Name plugin)
                                   (Version (Spec plugin)),
                    binDir = BinPath p\<rparr> opts s1 of
              (err, s2) \<Rightarrow>
                (if err \<noteq> None then (Wrap err ''install failed'', s2)
                 else
                  (case receipt_Store E plugin
                          (PluginInstallReceiptPath p (Name plugin)) s2 of
                     (err, s3) \<Rightarrow>
                       (Wrap err
                          ''installation receipt could not be stored, uninstall may fail'',
                        s3))))))"
proof -
  from assms(2) have "Some err \<noteq> None" by simp
  with assms show ?thesis
    by (simp add: Install_def)
qed

lemma Install_matched_journal:
  assumes l: "receipt_Load E (PluginInstallReceiptPath p (Name plugin)) s = (Inl err, s1)"
    and n: "IsNotExist (Some err)"
    and g: "GetMatchingPlatform E (Platforms (Spec plugin)) = (cand, True, None)"
  shows "prefix (journal s @ [ReceiptLoad (PluginInstallReceiptPath p (Name plugin)),
                            MkdirAll (Join [DownloadPath p, Name plugin])])
                (journal (snd (Install E p plugin opts s)))"
proof -
  let ?rp = "PluginInstallReceiptPath p (Name plugin)"
  let ?opn = "\<lparr>pluginName = Name plugin, platform = cand,
               downloadStagingDir = Join [DownloadPath p, Name plugin],
               installDir = PluginVersionInstallPath p (Name plugin) (Version (Spec plugin)),
               binDir = BinPath p\<rparr>"
  have j1: "journal s1 = journal s @ [ReceiptLoad ?rp]"
    using receipt_Load_world [of E ?rp s] l by (simp add: journal_called)
  obtain e2 s2 where i: "install E ?opn opts s1 = (e2, s2)"
    by (cases "install E ?opn opts s1")
  have p2: "prefix (journal s1 @ [MkdirAll (Join [DownloadPath p, Name plugin])]) (journal s2)"
    using install_journal [of s1 ?opn E opts] i by simp
  obtain e3 s3 where st: "receipt_Store E plugin ?rp s2 = (e3, s3)"
    by (cases "receipt_Store E plugin ?rp s2")
  have p3: "prefix (journal s2) (journal s3)"
    using receipt_Store_journal [of E plugin ?rp s2] st by simp
  have "snd (Install E p plugin opts s) \<in> {s2, s3}"
    using Install_not_found [OF l n, of opts] g i st by simp
  with p2 p3 have "prefix (journal s1 @ [MkdirAll (Join [DownloadPath p, Name plugin])])
                     (journal (snd (Install E p plugin opts s)))"
    by (auto intro: prefix_order.trans)
  with j1 show ?thesis by simp
qed

text \<open>
  C6. When the receipt of the plugin loads, \<open>Install\<close> fails with
  \<open>ErrIsAlreadyInstalled\<close>, and when the load fails with anything but not-found it fails
  with that error wrapped; in both cases the file system is as before and the load is
  the only call made. Whenever \<open>Install\<close> makes any further call the load had said
  not-found, and on not-found with a matching platform it does go on: its next call
  creates the staging directory.
\<close>

theorem Install_receipt_lookup:
  "(\<forall>found s1. receipt_Load E (PluginInstallReceiptPath p (Name plugin)) s = (Inr found, s1) \<longrightarrow>
       Install E p plugin opts s = (Some ErrIsAlreadyInstalled, s1)
       \<and> files s1 = files s
       \<and> journal s1 = journal s @ [ReceiptLoad (PluginInstallReceiptPath p (Name plugin))])
   \<and> (\<forall>err s1. receipt_Load E (PluginInstallReceiptPath p (Name plugin)) s = (Inl err, s1)
          \<and> \<not> IsNotExist (Some err) \<longrightarrow>
       Install E p plugin opts s
         = (Some (Wrapped err ''failed to look up plugin receipt'' []), s1)
       \<and> files s1 = files s
       \<and> journal s1 = journal s @ [ReceiptLoad (PluginInstallReceiptPath p (Name plugin))])
   \<and> (journal (snd (Install E p plugin opts s))
         \<noteq> journal s @ [ReceiptLoad (PluginInstallReceiptPath p (Name plugin))] \<longrightarrow>
       (\<exists>err. fst (receipt_Load E (PluginInstallReceiptPath p (Name plugin)) s) = Inl err
              \<and> IsNotExist (Some err)))
   \<and> (\<forall>err s1 cand.
         receipt_Load E (PluginInstallReceiptPath p (Name plugin)) s = (Inl err, s1)
         \<and> IsNotExist (Some err)
         \<and> GetMatchingPlatform E (Platforms (Spec plugin)) = (cand, True, None) \<longrightarrow>
         prefix (journal s @ [ReceiptLoad (PluginInstallReceiptPath p (Name plugin)),
                              MkdirAll (Join [DownloadPath p, Name plugin])])
                (journal (snd (Install E p plugin opts s))))"
proof (intro conjI allI impI)
  let ?rp = "PluginInstallReceiptPath p (Name plugin)"
  have w: "\<And>r s1. receipt_Load E ?rp s = (r, s1) \<Longrightarrow> s1 = called (ReceiptLoad ?rp) s"
    using receipt_Load_world [of E ?rp s] by simp
  {
    fix found s1
    assume l: "receipt_Load E ?rp s = (Inr found, s1)"
    then show "Install E p plugin opts s = (Some ErrIsAlreadyInstalled, s1)"
      by (rule Install_found)
    from w [OF l] show "files s1 = files s" and "journal s1 = journal s @ [ReceiptLoad ?rp]"
      by (simp_all add: files_called journal_called)
  }
  {
    fix err s1
    assume l: "receipt_Load E ?rp s = (Inl err, s1) \<and> \<not> IsNotExist (Some err)"
    then show "Install E p plugin opts s
         = (Some (Wrapped err ''failed to look up plugin receipt'' []), s1)"
      by (simp add: Install_lookup_failed)
    from l w [of "Inl err" s1] show "files s1 = files s"
      and "journal s1 = journal s @ [ReceiptLoad ?rp]"
      by (simp_all add: files_called journal_called)
  }
  {
    assume moved: "journal (snd (Install E p plugin opts s)) \<noteq> journal s @ [ReceiptLoad ?rp]"
    obtain r s1 where l: "receipt_Load E ?rp s = (r, s1)"
      by (cases "receipt_Load E ?rp s")
    have j: "journal s1 = journal s @ [ReceiptLoad ?rp]"
      using w [OF l] by (simp add: journal_called)
    show "\<exists>err. fst (receipt_Load E ?rp s) = Inl err \<and> IsNotExist (Some err)"
    proof (cases r)
      case (Inr found)
      with l moved j show ?thesis
        by (simp add: Install_found)
    next
      case (Inl err)
      with l moved j show ?thesis
        by (cases "IsNotExist (Some err)") (simp_all add: Install_lookup_failed)
    qed
  }
  {
    fix err s1 cand
    assume "receipt_Load E ?rp s = (Inl err, s1) \<and> IsNotExist (Some err)
         \<and> GetMatchingPlatform E (Platforms (Spec plugin)) = (cand, True, None)"
    then show "prefix (journal s @ [ReceiptLoad ?rp, MkdirAll (Join [DownloadPath p, Name plugin])])
                (journal (snd (Install E p plugin opts s)))"
      using Install_matched_journal [of E p plugin s err s1 cand opts] by simp
  }
qed

text \<open>An installed \<open>foo\<close>, a refused lookup, and a fresh install.\<close>

theorem Install_receipt_lookup_witness:
  "Install linuxHost krewPaths (fooPlugin [fooPlatform ''foo'' None]) noOverride installedWorld
     = (Some ErrIsAlreadyInstalled,
        called (ReceiptLoad ''/krew/receipts/foo.yaml'') installedWorld)
   \<and> Install (refusing (ReceiptLoad ''/krew/receipts/foo.yaml'')) krewPaths
         (fooPlugin [fooPlatform ''foo'' None]) noOverride emptyWorld
     = (Some (Wrapped (PathError ''open'' ''/krew/receipts/foo.yaml'' EACCES)
                ''failed to look up plugin receipt'' []),
        called (ReceiptLoad ''/krew/receipts/foo.yaml'') emptyWorld)
   \<and> prefix [ReceiptLoad ''/krew/receipts/foo.yaml'', MkdirAll ''/krew/dl/foo'']
        (journal (snd (Install linuxHost krewPaths (fooPlugin [fooPlatform ''foo'' None])
                         noOverride emptyWorld)))
   \<and> (\<exists>err. fst (receipt_Load linuxHost ''/krew/receipts/foo.yaml'' emptyWorld) = Inl err
            \<and> IsNotExist (Some err))"
proof -
  let ?P = "fooPlugin [fooPlatform ''foo'' None]"
  let ?rp = "''/krew/receipts/foo.yaml''"
  have rp: "PluginInstallReceiptPath krewPaths (Name ?P) = ?rp"
    by code_simp
  have st: "Join [DownloadPath krewPaths, Name ?P] = ''/krew/dl/foo''"
    by code_simp
  have em: "journal emptyWorld = []"
    by code_simp
  have h1: "receipt_Load linuxHost (PluginInstallReceiptPath krewPaths (Name ?P)) installedWorld
            = (Inr ?P, called (ReceiptLoad ?rp) installedWorld)"
    by code_simp
  have h2: "receipt_Load (refusing (ReceiptLoad ?rp)) (PluginInstallReceiptPath krewPaths (Name ?P))
              emptyWorld
            = (Inl (PathError ''open'' ?rp EACCES), called (ReceiptLoad ?rp) emptyWorld)
            \<and> \<not> IsNotExist (Some (PathError ''open'' ?rp EACCES))"
    by code_simp
  have h3: "journal (snd (Install linuxHost krewPaths ?P noOverride emptyWorld))
            \<noteq> journal emptyWorld @ [ReceiptLoad (PluginInstallReceiptPath krewPaths (Name ?P))]"
    by code_simp
  have h4: "receipt_Load linuxHost (PluginInstallReceiptPath krewPaths (Name ?P)) emptyWorld
            = (Inl (PathError ''open'' ?rp ENOENT), called (ReceiptLoad ?rp) emptyWorld)
            \<and> IsNotExist (Some (PathError ''open'' ?rp ENOENT))
            \<and> GetMatchingPlatform linuxHost (Platforms (Spec ?P))
                = (fooPlatform ''foo'' None, True, None)"
    by code_simp
  note a = Install_receipt_lookup [of linuxHost krewPaths ?P installedWorld noOverride,
             THEN conjunct1, THEN spec, THEN spec, THEN mp, OF h1, THEN conjunct1]
  note b = Install_receipt_lookup [of "refusing (ReceiptLoad ?rp)" krewPaths ?P emptyWorld
             noOverride, THEN conjunct2, THEN conjunct1, THEN spec, THEN spec, THEN mp, OF h2,
             THEN conjunct1]
  note c = Install_receipt_lookup [of linuxHost krewPaths ?P emptyWorld noOverride,
             THEN conjunct2, THEN conjunct2, THEN conjunct1, THEN mp, OF h3, unfolded rp]
  note d = Install_receipt_lookup [of linuxHost krewPaths ?P emptyWorld noOverride,
             THEN conjunct2, THEN conjunct2, THEN conjunct2, THEN spec, THEN spec, THEN spec,
             THEN mp, OF h4, unfolded rp st em append_Nil]
  show ?thesis
    by (intro conjI a b c d)
qed

subsection \<open>The staging directory\<close>


lemma map_of_filter_keep:
  "P q \<Longrightarrow> map_of (filter (\<lambda>(k, v). P k) xs) q = map_of xs q"
  by (induction xs) auto

lemma os_RemoveAll_unfold:
  "os_RemoveAll E p s =
     (if refuses E (RemoveAll p)
      then (Some (PathError ''unlinkat'' p EACCES), called (RemoveAll p) s)
      else (None, (called (RemoveAll p) s)\<lparr>files := filter (\<lambda>(q, n). \<not> under p q) (files s)\<rparr>))"
  by (simp add: os_RemoveAll_def Let_def)


lemma os_RemoveAll_outside:
  "\<not> under p q \<Longrightarrow> map_of (files (snd (os_RemoveAll E p s))) q = map_of (files s) q"
  by (simp add: os_RemoveAll_unfold files_called map_of_filter_keep)




subsection \<open>The order of \<open>Uninstall\<close>\<close>







subsection \<open>Two returns that wrap a nil error\<close>

lemma GetMatchingPlatform_unmatched:
  "list_all (\<lambda>pl. selects E (Selector pl) = Inr False) pls \<Longrightarrow>
   GetMatchingPlatform E pls = (zeroPlatform, False, None)"
  by (induction pls) simp_all

text \<open>
  With no matching platform \<open>Install\<close> reaches
  \<open>errors.Wrapf(err, "plugin %q does not offer installation for this platform", ...)\<close>
  with \<open>err\<close> equal to \<open>nil\<close>, and so returns \<open>nil\<close>.
\<close>

lemma Install_unmatched_returns_nil:
  assumes "receipt_Load E (PluginInstallReceiptPath p (Name plugin)) s = (Inl err, s1)"
    and "IsNotExist (Some err)"
    and "list_all (\<lambda>pl. selects E (Selector pl) = Inr False) (Platforms (Spec plugin))"
  shows "Install E p plugin opts s = (None, s1)"
  using Install_not_found [OF assms(1,2), of opts] GetMatchingPlatform_unmatched [OF assms(3)]
  by simp


text \<open>
  C2 at a failing input. No platform of the plugin matches the host (its only entry is for Windows and the
  host is Linux): \<open>Install\<close> returns \<open>nil\<close>, having done nothing but look the receipt up.
\<close>

theorem Install_no_platform_returns_nil:
  "GetMatchingPlatform linuxHost [(fooPlatform ''foo'' None)\<lparr>Selector := ''windows''\<rparr>]
     = (zeroPlatform, False, None)
   \<and> Install linuxHost krewPaths (fooPlugin [(fooPlatform ''foo'' None)\<lparr>Selector := ''windows''\<rparr>])
         noOverride emptyWorld
       = (None, \<lparr>files = [], journal = [ReceiptLoad ''/krew/receipts/foo.yaml'']\<rparr>)
   \<and> Install linuxHost krewPaths (fooPlugin []) noOverride emptyWorld
       = (None, \<lparr>files = [], journal = [ReceiptLoad ''/krew/receipts/foo.yaml'']\<rparr>)"
  by code_simp


text \<open>
  When the binary's path is not below the install directory, \<open>install\<close> reaches
  \<open>errors.Wrapf(err, "the fullPath %q does not extend the sub-fullPath %q", ...)\<close> with
  \<open>err\<close> equal to \<open>nil\<close>: its steps return \<open>nil\<close> in the world the move left, without a
  call to \<open>createOrUpdateLink\<close>.
\<close>

lemma install_steps_outside_returns_nil:
  assumes "downloadAndExtract E (downloadStagingDir opn) (URI (platform opn))
             (Sha256 (platform opn)) (ArchiveFileOverride opts) s = (None, s1)"
    and "moveToInstallDir E (downloadStagingDir opn) (installDir opn)
           (Files (applyDefaults (platform opn))) s1 = (None, s2)"
    and "Abs E (installDir opn) = (subPathAbs, None)"
    and "Abs E (Join [installDir opn, FromSlash (Bin (applyDefaults (platform opn)))])
           = (pathAbs, None)"
    and "\<not> snd (IsSubPath subPathAbs pathAbs)"
  shows "install_steps E opn opts s = (None, s2)"
  using assms unfolding install_steps_def Let_def by simp


text \<open>
  C1 at a failing input. The \<open>bin\<close> of the manifest is \<open>../../evil\<close>, which resolves to \<open>/krew/store/evil\<close>,
  outside the install directory \<open>/krew/store/foo/v1\<close>: \<open>install\<close> returns \<open>nil\<close>, and it
  has created no symlink.
\<close>

theorem install_traversal_returns_nil:
  "Join [''/krew/store/foo/v1'', FromSlash ''../../evil''] = ''/krew/store/evil''
   \<and> IsSubPath ''/krew/store/foo/v1'' ''/krew/store/evil'' = ([], False)
   \<and> install linuxHost (fooOperation ''../../evil'') noOverride emptyWorld
       = (None,
          \<lparr>files = [(''/krew/store/foo/v1/foo'', File None)],
           journal = [MkdirAll ''/krew/dl/foo'',
                      Download HTTPFetcher ''file:///tmp/foo.tar.gz'' ''/krew/dl/foo'',
                      Move ''/krew/dl/foo'' ''/krew/store/foo/v1'',
                      RemoveAll ''/krew/dl/foo'']\<rparr>)"
  by code_simp


text \<open>An error of \<open>install\<close> is returned wrapped, and the receipt is not stored.\<close>

lemma Install_install_failed:
  assumes "receipt_Load E (PluginInstallReceiptPath p (Name plugin)) s = (Inl err, s1)"
    and "IsNotExist (Some err)"
    and "GetMatchingPlatform E (Platforms (Spec plugin)) = (cand, True, None)"
    and "install E \<lparr>pluginName = Name plugin, platform = cand,
                    downloadStagingDir = Join [DownloadPath p, Name plugin],
                    installDir = PluginVersionInstallPath p (Name plugin) (Version (Spec plugin)),
                    binDir = BinPath p\<rparr> opts s1 = (Some e, s2)"
  shows "Install E p plugin opts s = (Some (Wrapped e ''install failed'' []), s2)"
  using Install_not_found [OF assms(1,2), of opts] assms(3,4)
  by (simp add: Wrap_def)

text \<open>
  C5 at a failing input. The manifest whose \<open>bin\<close> is \<open>../../evil\<close>, given to
  \<open>Install\<close>: the path check does not pass, no link is
  published, and the receipt is stored all the same.
\<close>

theorem Install_traversal_stores_receipt:
  "Install linuxHost krewPaths (fooPlugin [fooPlatform ''../../evil'' None]) noOverride emptyWorld
     = (None,
        \<lparr>files = [(''/krew/store/foo/v1/foo'', File None),
                  (''/krew/receipts/foo.yaml'',
                   File (Some (fooPlugin [fooPlatform ''../../evil'' None])))],
         journal = [ReceiptLoad ''/krew/receipts/foo.yaml'', MkdirAll ''/krew/dl/foo'',
                    Download HTTPFetcher ''file:///tmp/foo.tar.gz'' ''/krew/dl/foo'',
                    Move ''/krew/dl/foo'' ''/krew/store/foo/v1'',
                    RemoveAll ''/krew/dl/foo'',
                    ReceiptStore ''/krew/receipts/foo.yaml'']\<rparr>)"
  by code_simp

end
